theory Spec2Isabelle
  imports Complex_Main
begin

section \<open>Quality grade classifier\<close>

text \<open>
  Source: \<^verbatim>\<open>webapp/src/types/qc.ts\<close>, function \<^verbatim>\<open>calculateBaleGrade\<close>.
  The TypeScript enums \<^verbatim>\<open>Color\<close> and \<^verbatim>\<open>Wetness\<close> are string enums whose members equal
  their own names, and the parameters are typed \<^verbatim>\<open>Color | string\<close> and
  \<^verbatim>\<open>Wetness | string\<close>, so both are strings here.
\<close>

datatype BaleGrade = A | B | C | D | REJECT

abbreviation Color_DARK_GREEN :: string where "Color_DARK_GREEN \<equiv> ''DARK_GREEN''"
abbreviation Color_GREEN :: string where "Color_GREEN \<equiv> ''GREEN''"
abbreviation Color_LIGHT_GREEN :: string where "Color_LIGHT_GREEN \<equiv> ''LIGHT_GREEN''"
abbreviation Color_BROWN :: string where "Color_BROWN \<equiv> ''BROWN''"

abbreviation Wetness_DRY :: string where "Wetness_DRY \<equiv> ''DRY''"
abbreviation Wetness_DAMP :: string where "Wetness_DAMP \<equiv> ''DAMP''"
abbreviation Wetness_WET :: string where "Wetness_WET \<equiv> ''WET''"

text \<open>
  A JavaScript number. Every finite double is a real number and the comparisons of the
  source are against integer constants, so a finite value is a \<^typ>\<open>real\<close>; the three
  special values are kept apart, because \<^verbatim>\<open>parseFloat\<close> in the caller can produce them.
  Every comparison with \<^verbatim>\<open>NaN\<close> is false.
\<close>

datatype number = Num real | NaN | PosInf | NegInf

fun js_ge :: "number \<Rightarrow> real \<Rightarrow> bool" where
  "js_ge (Num x) c = (x \<ge> c)"
| "js_ge NaN c = False"
| "js_ge PosInf c = True"
| "js_ge NegInf c = False"

fun js_le :: "number \<Rightarrow> real \<Rightarrow> bool" where
  "js_le (Num x) c = (x \<le> c)"
| "js_le NaN c = False"
| "js_le PosInf c = False"
| "js_le NegInf c = True"

fun js_gt :: "number \<Rightarrow> real \<Rightarrow> bool" where
  "js_gt (Num x) c = (x > c)"
| "js_gt NaN c = False"
| "js_gt PosInf c = True"
| "js_gt NegInf c = False"

fun js_lt :: "number \<Rightarrow> real \<Rightarrow> bool" where
  "js_lt (Num x) c = (x < c)"
| "js_lt NaN c = False"
| "js_lt PosInf c = False"
| "js_lt NegInf c = True"

text \<open>\<^verbatim>\<open>moisture !== null && moisture OP c\<close> for a \<^verbatim>\<open>number | null\<close>.\<close>

definition notnull_and :: "number option \<Rightarrow> (number \<Rightarrow> bool) \<Rightarrow> bool" where
  "notnull_and moisture p = (case moisture of None \<Rightarrow> False | Some m \<Rightarrow> p m)"

definition calculateBaleGrade ::
  "number option \<Rightarrow> string \<Rightarrow> string \<Rightarrow> bool \<Rightarrow> bool \<Rightarrow> BaleGrade" where
  "calculateBaleGrade moisture color wetness mold contamination =
    (if mold \<or> contamination \<or> wetness = Wetness_WET \<or> wetness = ''WET'' then REJECT
     else if (color = Color_DARK_GREEN \<or> color = ''DARK_GREEN'' \<or>
              color = Color_GREEN \<or> color = ''GREEN'') \<and>
             notnull_and moisture (\<lambda>m. js_ge m 10 \<and> js_le m 14) \<and>
             (wetness = Wetness_DRY \<or> wetness = ''DRY'') then A
     else if notnull_and moisture (\<lambda>m. js_gt m 30) then D
     else if notnull_and moisture (\<lambda>m. js_gt m 25) then C
     else if color = Color_LIGHT_GREEN \<or> color = ''LIGHT_GREEN'' \<or>
             color = Color_BROWN \<or> color = ''BROWN'' \<or>
             notnull_and moisture (\<lambda>m. js_gt m 14 \<and> js_le m 25) \<or>
             wetness = Wetness_DAMP \<or> wetness = ''DAMP'' then B
     else if (color = Color_DARK_GREEN \<or> color = ''DARK_GREEN'' \<or>
              color = Color_GREEN \<or> color = ''GREEN'') \<and>
             (wetness = Wetness_DRY \<or> wetness = ''DRY'') then A
     else B)"

section \<open>Access guards\<close>

text \<open>
  Source: \<^verbatim>\<open>auth/guards.ts\<close> and \<^verbatim>\<open>auth/jwt.ts\<close>. The verified principal is the
  \<^verbatim>\<open>AuthPayload\<close> of the token; its role is typed \<^verbatim>\<open>string\<close> there.
\<close>

record AuthPayload =
  userId :: string
  companyId :: string
  role :: string

text \<open>
  The store behind \<^verbatim>\<open>prisma\<close>, one table per delegate the guards and the bale routes
  use, each row with the columns they read. A bale row carries its own
  \<^verbatim>\<open>poId\<close> and \<^verbatim>\<open>shipmentId\<close> columns beside \<^verbatim>\<open>containerId\<close>; its remaining columns
  (display id, weight, moisture, colour, grade, decision, photos, notes) are kept as one
  value of type \<^typ>\<open>'d\<close>. \<^verbatim>\<open>POUserAssignment\<close> is unique per pair of PO and user, so
  the table is the set of the pairs that have a row.
\<close>

record PurchaseOrder =
  po_companyId :: string

record Shipment =
  shipment_poId :: string

record Container =
  container_shipmentId :: string

record 'd Bale =
  bale_id :: string
  bale_poId :: string
  bale_shipmentId :: string
  bale_containerId :: string
  bale_inspectorId :: string
  bale_baleNumber :: int
  bale_details :: 'd

record User =
  user_companyId :: string
  user_role :: string

record 'd Database =
  user :: "string \<rightharpoonup> User"
  purchaseOrder :: "string \<rightharpoonup> PurchaseOrder"
  shipment :: "string \<rightharpoonup> Shipment"
  container :: "string \<rightharpoonup> Container"
  bale :: "'d Bale list"
  pOUserAssignment :: "(string \<times> string) set"

text \<open>
  What a handler or a guard can throw. \<^verbatim>\<open>HTTPException\<close> carries the status and the
  message. \<^verbatim>\<open>TypeError\<close> is the property read on a relation that an \<^verbatim>\<open>include\<close> left
  null (a row whose parent row is missing); the two Prisma errors are a request the
  database refused, with its code, and a query the client refused to send.
\<close>

datatype thrown =
  HTTPException nat string
| TypeError
| PrismaClientKnownRequestError string
| PrismaClientValidationError

definition bale_findUnique :: "'d Database \<Rightarrow> string \<Rightarrow> 'd Bale option" where
  "bale_findUnique db baleId = find (\<lambda>b. bale_id b = baleId) (bale db)"

definition requireAuth :: "AuthPayload option \<Rightarrow> thrown + AuthPayload" where
  "requireAuth c =
    (case c of
       None \<Rightarrow> Inl (HTTPException 401 ''Authentication required'')
     | Some auth \<Rightarrow> Inr auth)"

fun join :: "string \<Rightarrow> string list \<Rightarrow> string" where
  "join sep [] = []"
| "join sep [x] = x"
| "join sep (x # y # ys) = x @ sep @ join sep (y # ys)"

definition requireRole :: "AuthPayload option \<Rightarrow> string list \<Rightarrow> thrown + AuthPayload" where
  "requireRole c allowedRoles =
    (case requireAuth c of
       Inl e \<Rightarrow> Inl e
     | Inr auth \<Rightarrow>
         if role auth \<notin> set allowedRoles
         then Inl (HTTPException 403
                (''Access denied. Required roles: '' @ join '', '' allowedRoles))
         else Inr auth)"

definition requirePOAccess ::
  "'d Database \<Rightarrow> AuthPayload option \<Rightarrow> string \<Rightarrow> thrown + AuthPayload" where
  "requirePOAccess db c poId =
    (case requireAuth c of
       Inl e \<Rightarrow> Inl e
     | Inr auth \<Rightarrow>
        (case purchaseOrder db poId of
           None \<Rightarrow> Inl (HTTPException 404 ''Purchase order not found'')
         | Some po \<Rightarrow>
             if po_companyId po \<noteq> companyId auth
             then Inl (HTTPException 404 ''Purchase order not found'')
             else if role auth = ''CUSTOMER'' \<or> role auth = ''SUPPLIER''
             then (if (poId, userId auth) \<notin> pOUserAssignment db
                   then Inl (HTTPException 403
                          ''You do not have access to this purchase order'')
                   else Inr auth)
             else Inr auth))"

text \<open>The guard returns \<^verbatim>\<open>{ auth, shipment: { poId } }\<close>: the pair of the two.\<close>

definition requireShipmentAccess ::
  "'d Database \<Rightarrow> AuthPayload option \<Rightarrow> string \<Rightarrow> thrown + (AuthPayload \<times> string)" where
  "requireShipmentAccess db c shipmentId =
    (case requireAuth c of
       Inl e \<Rightarrow> Inl e
     | Inr auth \<Rightarrow>
        (case shipment db shipmentId of
           None \<Rightarrow> Inl (HTTPException 404 ''Shipment not found'')
         | Some s \<Rightarrow>
            (case purchaseOrder db (shipment_poId s) of
               None \<Rightarrow> Inl TypeError
             | Some po \<Rightarrow>
                 if po_companyId po \<noteq> companyId auth
                 then Inl (HTTPException 404 ''Shipment not found'')
                 else if role auth = ''CUSTOMER'' \<or> role auth = ''SUPPLIER''
                 then (if (shipment_poId s, userId auth) \<notin> pOUserAssignment db
                       then Inl (HTTPException 403
                              ''You do not have access to this shipment'')
                       else Inr (auth, shipment_poId s))
                 else Inr (auth, shipment_poId s))))"

text \<open>
  The guard returns \<^verbatim>\<open>{ auth, container: { shipmentId, poId } }\<close>, the PO id being
  \<^verbatim>\<open>container.shipment.poId\<close>.
\<close>

definition requireContainerAccess ::
  "'d Database \<Rightarrow> AuthPayload option \<Rightarrow> string \<Rightarrow>
   thrown + (AuthPayload \<times> string \<times> string)" where
  "requireContainerAccess db c containerId =
    (case requireAuth c of
       Inl e \<Rightarrow> Inl e
     | Inr auth \<Rightarrow>
        (case container db containerId of
           None \<Rightarrow> Inl (HTTPException 404 ''Container not found'')
         | Some ct \<Rightarrow>
            (case shipment db (container_shipmentId ct) of
               None \<Rightarrow> Inl TypeError
             | Some s \<Rightarrow>
                (case purchaseOrder db (shipment_poId s) of
                   None \<Rightarrow> Inl TypeError
                 | Some po \<Rightarrow>
                     if po_companyId po \<noteq> companyId auth
                     then Inl (HTTPException 404 ''Container not found'')
                     else if role auth = ''CUSTOMER'' \<or> role auth = ''SUPPLIER''
                     then (if (shipment_poId s, userId auth) \<notin> pOUserAssignment db
                           then Inl (HTTPException 403
                                  ''You do not have access to this container'')
                           else Inr (auth, container_shipmentId ct, shipment_poId s))
                     else Inr (auth, container_shipmentId ct, shipment_poId s)))))"

text \<open>
  The guard returns \<^verbatim>\<open>{ auth, bale: { containerId, shipmentId, poId } }\<close>, all three read
  from the bale row itself. The company comes from
  \<^verbatim>\<open>bale.container.shipment.purchaseOrder\<close>, the assignment is looked up under
  \<^verbatim>\<open>bale.poId\<close>.
\<close>

definition requireBaleAccess ::
  "'d Database \<Rightarrow> AuthPayload option \<Rightarrow> string \<Rightarrow>
   thrown + (AuthPayload \<times> string \<times> string \<times> string)" where
  "requireBaleAccess db c baleId =
    (case requireAuth c of
       Inl e \<Rightarrow> Inl e
     | Inr auth \<Rightarrow>
        (case bale_findUnique db baleId of
           None \<Rightarrow> Inl (HTTPException 404 ''Bale not found'')
         | Some b \<Rightarrow>
            (case container db (bale_containerId b) of
               None \<Rightarrow> Inl TypeError
             | Some ct \<Rightarrow>
                (case shipment db (container_shipmentId ct) of
                   None \<Rightarrow> Inl TypeError
                 | Some s \<Rightarrow>
                    (case purchaseOrder db (shipment_poId s) of
                       None \<Rightarrow> Inl TypeError
                     | Some po \<Rightarrow>
                         if po_companyId po \<noteq> companyId auth
                         then Inl (HTTPException 404 ''Bale not found'')
                         else if role auth = ''CUSTOMER'' \<or> role auth = ''SUPPLIER''
                         then (if (bale_poId b, userId auth) \<notin> pOUserAssignment db
                               then Inl (HTTPException 403
                                      ''You do not have access to this bale'')
                               else Inr (auth, bale_containerId b,
                                         bale_shipmentId b, bale_poId b))
                         else Inr (auth, bale_containerId b,
                                   bale_shipmentId b, bale_poId b))))))"

definition isSupervisor :: "AuthPayload \<Rightarrow> bool" where
  "isSupervisor auth = (role auth = ''SUPERVISOR'')"

definition canCreateBales :: "AuthPayload \<Rightarrow> bool" where
  "canCreateBales auth = (role auth = ''INSPECTOR'' \<or> role auth = ''SUPERVISOR'')"

subsection \<open>The guards as one resolver, and the ownership chain\<close>

text \<open>
  The specification speaks of one resolver taking the entity type. Here it is the
  choice among the four guards, keeping the decision (the failure thrown, or the
  principal returned) and dropping the ancestor ids the last three return with it.
\<close>

datatype EntityType = PO | SHIPMENT | CONTAINER | BALE

definition accessGuard ::
  "'d Database \<Rightarrow> AuthPayload option \<Rightarrow> EntityType \<Rightarrow> string \<Rightarrow> thrown + AuthPayload" where
  "accessGuard db c ety entityId =
    (case ety of
       PO \<Rightarrow> requirePOAccess db c entityId
     | SHIPMENT \<Rightarrow> map_sum id fst (requireShipmentAccess db c entityId)
     | CONTAINER \<Rightarrow> map_sum id fst (requireContainerAccess db c entityId)
     | BALE \<Rightarrow> map_sum id fst (requireBaleAccess db c entityId))"

text \<open>The live chain: each row's parent is the row its foreign key names.\<close>

definition shipmentPO :: "'d Database \<Rightarrow> string \<Rightarrow> string option" where
  "shipmentPO db shipmentId = map_option shipment_poId (shipment db shipmentId)"

definition containerPO :: "'d Database \<Rightarrow> string \<Rightarrow> string option" where
  "containerPO db containerId =
    Option.bind (container db containerId) (\<lambda>ct. shipmentPO db (container_shipmentId ct))"

definition poCompany :: "'d Database \<Rightarrow> string \<Rightarrow> string option" where
  "poCompany db poId = map_option po_companyId (purchaseOrder db poId)"

text \<open>The PO at the top of the chain of an entity.\<close>

definition chainPO :: "'d Database \<Rightarrow> EntityType \<Rightarrow> string \<Rightarrow> string option" where
  "chainPO db ety entityId =
    (case ety of
       PO \<Rightarrow> map_option (\<lambda>_. entityId) (purchaseOrder db entityId)
     | SHIPMENT \<Rightarrow> shipmentPO db entityId
     | CONTAINER \<Rightarrow> containerPO db entityId
     | BALE \<Rightarrow> Option.bind (bale_findUnique db entityId)
                 (\<lambda>b. containerPO db (bale_containerId b)))"

text \<open>The root company of an entity: the company of the PO at the top of its chain.\<close>

definition rootCompany :: "'d Database \<Rightarrow> EntityType \<Rightarrow> string \<Rightarrow> string option" where
  "rootCompany db ety entityId = Option.bind (chainPO db ety entityId) (poCompany db)"

definition entityExists :: "'d Database \<Rightarrow> EntityType \<Rightarrow> string \<Rightarrow> bool" where
  "entityExists db ety entityId =
    (case ety of
       PO \<Rightarrow> purchaseOrder db entityId \<noteq> None
     | SHIPMENT \<Rightarrow> shipment db entityId \<noteq> None
     | CONTAINER \<Rightarrow> container db entityId \<noteq> None
     | BALE \<Rightarrow> bale_findUnique db entityId \<noteq> None)"

definition notFoundMessage :: "EntityType \<Rightarrow> string" where
  "notFoundMessage ety =
    (case ety of
       PO \<Rightarrow> ''Purchase order not found''
     | SHIPMENT \<Rightarrow> ''Shipment not found''
     | CONTAINER \<Rightarrow> ''Container not found''
     | BALE \<Rightarrow> ''Bale not found'')"

definition forbiddenMessage :: "EntityType \<Rightarrow> string" where
  "forbiddenMessage ety =
    (case ety of
       PO \<Rightarrow> ''You do not have access to this purchase order''
     | SHIPMENT \<Rightarrow> ''You do not have access to this shipment''
     | CONTAINER \<Rightarrow> ''You do not have access to this container''
     | BALE \<Rightarrow> ''You do not have access to this bale'')"

section \<open>Bale routes\<close>

text \<open>
  Source: \<^verbatim>\<open>backend/src/routes/bales.ts\<close>. A handler either answers with
  \<^verbatim>\<open>c.json({ data }, status)\<close> or \<^verbatim>\<open>c.json({ error: { message, code } }, status)\<close>, or lets
  an exception through. Its \<^verbatim>\<open>catch\<close> rethrows what has a \<^verbatim>\<open>status\<close> property, which
  of the values thrown here only \<^verbatim>\<open>HTTPException\<close> has.
\<close>

datatype 'a response =
  Json nat 'a
| JsonError nat string string

definition hasStatus :: "thrown \<Rightarrow> bool" where
  "hasStatus e = (case e of HTTPException _ _ \<Rightarrow> True | _ \<Rightarrow> False)"

definition errorCode :: "thrown \<Rightarrow> string option" where
  "errorCode e = (case e of PrismaClientKnownRequestError code \<Rightarrow> Some code | _ \<Rightarrow> None)"

subsection \<open>Listing bales\<close>

text \<open>
  A query parameter is absent or a string; \<^verbatim>\<open>if (q)\<close> holds for a string that is not
  empty. \<^verbatim>\<open>truthy q\<close> is the value when the test holds.
\<close>

definition truthy :: "string option \<Rightarrow> string option" where
  "truthy q = (case q of None \<Rightarrow> None | Some s \<Rightarrow> if s = [] then None else Some s)"

text \<open>
  The \<^verbatim>\<open>where\<close> object of the query: a condition per column that was set, and the
  nested relation filter on the company of
  \<^verbatim>\<open>container.shipment.purchaseOrder\<close>.
\<close>

record BaleWhere =
  where_containerId :: "string option"
  where_shipmentId :: "string option"
  where_poId :: "string option"
  where_inspectorId :: "string option"
  where_companyId :: "string option"

definition baleCompany :: "'d Database \<Rightarrow> 'd Bale \<Rightarrow> string option" where
  "baleCompany db b =
    Option.bind (containerPO db (bale_containerId b)) (poCompany db)"

definition columnIs :: "string option \<Rightarrow> string \<Rightarrow> bool" where
  "columnIs cond v = (case cond of None \<Rightarrow> True | Some x \<Rightarrow> v = x)"

definition baleMatches :: "'d Database \<Rightarrow> BaleWhere \<Rightarrow> 'd Bale \<Rightarrow> bool" where
  "baleMatches db w b =
    (columnIs (where_containerId w) (bale_containerId b) \<and>
     columnIs (where_shipmentId w) (bale_shipmentId b) \<and>
     columnIs (where_poId w) (bale_poId b) \<and>
     columnIs (where_inspectorId w) (bale_inspectorId b) \<and>
     (case where_companyId w of None \<Rightarrow> True | Some cid \<Rightarrow> baleCompany db b = Some cid))"

text \<open>
  The handler calls two things that are not code of the repository: JavaScript's
  \<^verbatim>\<open>parseInt\<close> and the Prisma client's \<^verbatim>\<open>findMany\<close>. The model takes what they do as
  parameters, so that what is proved of the handler holds for every behaviour of them:
  \<^item> \<open>js_parseInt\<close> is \<^verbatim>\<open>parseInt(s, 10)\<close>, from a string to a number;
  \<^item> \<open>db_order\<close> is the order in which the database comes upon the rows that match a
    query. \<^verbatim>\<open>orderBy: { baleNumber: "asc" }\<close> sorts them by bale number and names no
    second key, so rows with the same bale number stay in the order the database chose,
    which may differ from one query to another;
  \<^item> \<open>prisma_take\<close> is what \<^verbatim>\<open>take: limit\<close> makes of the ordered rows: the rows kept,
    or the error thrown for a limit the client or the database refuses.
\<close>

record 'd Externals =
  js_parseInt :: "string \<Rightarrow> number"
  db_order :: "BaleWhere \<Rightarrow> number \<Rightarrow> 'd Bale list \<Rightarrow> 'd Bale list"
  prisma_take :: "number \<Rightarrow> 'd Bale list \<Rightarrow> thrown + 'd Bale list"

text \<open>
  \<^verbatim>\<open>prisma.bale.findMany({ where, take: limit, orderBy: { baleNumber: "asc" } })\<close>.
\<close>

definition bale_findMany ::
  "'d Externals \<Rightarrow> 'd Database \<Rightarrow> BaleWhere \<Rightarrow> number \<Rightarrow> thrown + 'd Bale list" where
  "bale_findMany ext db w limit =
    prisma_take ext limit
      (sort_key bale_baleNumber
        (db_order ext w limit (filter (baleMatches db w) (bale db))))"

text \<open>
  The \<^verbatim>\<open>catch\<close> of the handler: what has a \<^verbatim>\<open>status\<close> is thrown again, anything else
  is answered with 500.
\<close>

definition fetchCatch :: "thrown + 'a response \<Rightarrow> thrown + 'a response" where
  "fetchCatch r =
    (case r of
       Inl e \<Rightarrow>
         if hasStatus e then Inl e
         else Inr (JsonError 500 ''Failed to fetch bales'' ''FETCH_ERROR'')
     | Inr x \<Rightarrow> Inr x)"

text \<open>\<^verbatim>\<open>c.req.query("limit") || "100"\<close>.\<close>

definition limitText :: "string option \<Rightarrow> string" where
  "limitText limitQuery = (case truthy limitQuery of None \<Rightarrow> ''100'' | Some s \<Rightarrow> s)"

text \<open>
  \<^verbatim>\<open>GET /api/bales\<close>. The answer lists the rows; the inspector and the container that
  \<^verbatim>\<open>include\<close> attaches to each row are read from the row's own ids and are left out.
\<close>

definition getBalesBody ::
  "'d Externals \<Rightarrow> 'd Database \<Rightarrow> AuthPayload option \<Rightarrow> string option \<Rightarrow> string option \<Rightarrow>
   string option \<Rightarrow> string option \<Rightarrow> string option \<Rightarrow> thrown + 'd Bale list response" where
  "getBalesBody ext db c containerId shipmentId poId inspectorId limitQuery =
    (case requireAuth c of
       Inl e \<Rightarrow> Inl e
     | Inr auth \<Rightarrow>
        (let limit = js_parseInt ext (limitText limitQuery) in
         case (case truthy containerId of
                 None \<Rightarrow> Inr ()
               | Some cid \<Rightarrow> map_sum id (\<lambda>_. ()) (requireContainerAccess db c cid)) of
           Inl e \<Rightarrow> Inl e
         | Inr _ \<Rightarrow>
            (let w = \<lparr> where_containerId = truthy containerId,
                       where_shipmentId = truthy shipmentId,
                       where_poId = truthy poId,
                       where_inspectorId = truthy inspectorId,
                       where_companyId =
                         (if truthy containerId = None \<and> truthy shipmentId = None \<and>
                             truthy poId = None
                          then Some (companyId auth) else None) \<rparr> in
             case bale_findMany ext db w limit of
               Inl e \<Rightarrow> Inl e
             | Inr bales \<Rightarrow> Inr (Json 200 bales))))"

definition getBales ::
  "'d Externals \<Rightarrow> 'd Database \<Rightarrow> AuthPayload option \<Rightarrow> string option \<Rightarrow> string option \<Rightarrow>
   string option \<Rightarrow> string option \<Rightarrow> string option \<Rightarrow> thrown + 'd Bale list response" where
  "getBales ext db c containerId shipmentId poId inspectorId limitQuery =
    fetchCatch (getBalesBody ext db c containerId shipmentId poId inspectorId limitQuery)"

subsection \<open>Creating a bale\<close>

text \<open>
  The validated body of \<^verbatim>\<open>POST /api/bales\<close> (\<^verbatim>\<open>createBaleSchema\<close>): the three ancestor
  ids and the inspector id are strings of the client's choosing, the bale number is a
  positive integer, the other fields are the \<^typ>\<open>'d\<close> of the row.
\<close>

record 'd CreateBale =
  data_poId :: string
  data_shipmentId :: string
  data_containerId :: string
  data_inspectorId :: string
  data_baleNumber :: int
  data_details :: 'd

text \<open>
  \<^verbatim>\<open>prisma.bale.create({ data })\<close>: the row is the data under a fresh id. The schema of
  the store is not part of the sources. The handler's answer to \<^verbatim>\<open>P2002\<close> shows that a
  bale number is unique within a container; what else the store checks on insertion
  (its foreign keys) is the parameter \<open>accepts\<close>, and the id it gives the row is the
  parameter \<open>newId\<close>.
\<close>

definition baleRow :: "string \<Rightarrow> 'd CreateBale \<Rightarrow> 'd Bale" where
  "baleRow newId data =
    \<lparr> bale_id = newId,
      bale_poId = data_poId data,
      bale_shipmentId = data_shipmentId data,
      bale_containerId = data_containerId data,
      bale_inspectorId = data_inspectorId data,
      bale_baleNumber = data_baleNumber data,
      bale_details = data_details data \<rparr>"

definition bale_create ::
  "('d Database \<Rightarrow> 'd Bale \<Rightarrow> bool) \<Rightarrow> string \<Rightarrow> 'd Database \<Rightarrow> 'd CreateBale \<Rightarrow>
   thrown + ('d Bale \<times> 'd Database)" where
  "bale_create accepts newId db data =
    (if list_ex (\<lambda>b. bale_containerId b = data_containerId data \<and>
                      bale_baleNumber b = data_baleNumber data) (bale db)
     then Inl (PrismaClientKnownRequestError ''P2002'')
     else if \<not> accepts db (baleRow newId data)
     then Inl (PrismaClientKnownRequestError ''P2003'')
     else Inr (baleRow newId data, db\<lparr>bale := bale db @ [baleRow newId data]\<rparr>))"

definition postBaleBody ::
  "('d Database \<Rightarrow> 'd Bale \<Rightarrow> bool) \<Rightarrow> string \<Rightarrow> 'd Database \<Rightarrow> AuthPayload option \<Rightarrow>
   'd CreateBale \<Rightarrow> thrown + ('d Bale response \<times> 'd Database)" where
  "postBaleBody accepts newId db c data =
    (case requireAuth c of
       Inl e \<Rightarrow> Inl e
     | Inr auth \<Rightarrow>
         if \<not> canCreateBales auth
         then Inr (JsonError 403
                ''Access denied. Only inspectors and supervisors can create bales.''
                ''FORBIDDEN'', db)
         else
          (case requireContainerAccess db c (data_containerId data) of
             Inl e \<Rightarrow> Inl e
           | Inr _ \<Rightarrow>
              (case bale_create accepts newId db data of
                 Inl e \<Rightarrow> Inl e
               | Inr (row, db') \<Rightarrow> Inr (Json 201 row, db'))))"

text \<open>
  The handler with its \<^verbatim>\<open>catch\<close>: the answer, or the exception let through, and the
  store afterwards.
\<close>

definition postBale ::
  "('d Database \<Rightarrow> 'd Bale \<Rightarrow> bool) \<Rightarrow> string \<Rightarrow> 'd Database \<Rightarrow> AuthPayload option \<Rightarrow>
   'd CreateBale \<Rightarrow> (thrown + 'd Bale response) \<times> 'd Database" where
  "postBale accepts newId db c data =
    (case postBaleBody accepts newId db c data of
       Inl e \<Rightarrow>
         if hasStatus e then (Inl e, db)
         else if errorCode e = Some ''P2002''
         then (Inr (JsonError 409 ''Bale number already exists for this container''
                      ''DUPLICATE_BALE''), db)
         else (Inr (JsonError 500 ''Failed to create bale'' ''CREATE_ERROR''), db)
     | Inr (r, db') \<Rightarrow> (Inr r, db'))"

text \<open>The ancestor ids of a container, read from the live chain.\<close>

definition containerShipment :: "'d Database \<Rightarrow> string \<Rightarrow> string option" where
  "containerShipment db containerId =
    map_option container_shipmentId (container db containerId)"

section \<open>A store to evaluate on\<close>

text \<open>
  Two companies. Company \<open>c1\<close> owns the POs \<open>po1\<close> and \<open>po2\<close>, company \<open>c2\<close> owns
  \<open>po9\<close>; each PO has one shipment with one container. Bale \<open>b1\<close> lies in container
  \<open>ct1\<close> and names the ancestors of that container; bale \<open>b2\<close> lies in \<open>ct1\<close> too but
  names shipment \<open>s2\<close> and PO \<open>po2\<close>; bale \<open>b9\<close> belongs to company \<open>c2\<close>. The customer
  \<open>u3\<close> is assigned to \<open>po1\<close>, the supplier \<open>u4\<close> to \<open>po2\<close>.
\<close>

definition sampleDb :: "unit Database" where
  "sampleDb =
    \<lparr> user =
        [''u1'' \<mapsto> \<lparr>user_companyId = ''c1'', user_role = ''SUPERVISOR''\<rparr>,
         ''u2'' \<mapsto> \<lparr>user_companyId = ''c1'', user_role = ''INSPECTOR''\<rparr>,
         ''u3'' \<mapsto> \<lparr>user_companyId = ''c1'', user_role = ''CUSTOMER''\<rparr>,
         ''u4'' \<mapsto> \<lparr>user_companyId = ''c1'', user_role = ''SUPPLIER''\<rparr>,
         ''u8'' \<mapsto> \<lparr>user_companyId = ''c2'', user_role = ''CUSTOMER''\<rparr>],
      purchaseOrder =
        [''po1'' \<mapsto> \<lparr>po_companyId = ''c1''\<rparr>,
         ''po2'' \<mapsto> \<lparr>po_companyId = ''c1''\<rparr>,
         ''po9'' \<mapsto> \<lparr>po_companyId = ''c2''\<rparr>],
      shipment =
        [''s1'' \<mapsto> \<lparr>shipment_poId = ''po1''\<rparr>,
         ''s2'' \<mapsto> \<lparr>shipment_poId = ''po2''\<rparr>,
         ''s9'' \<mapsto> \<lparr>shipment_poId = ''po9''\<rparr>],
      container =
        [''ct1'' \<mapsto> \<lparr>container_shipmentId = ''s1''\<rparr>,
         ''ct2'' \<mapsto> \<lparr>container_shipmentId = ''s2''\<rparr>,
         ''ct9'' \<mapsto> \<lparr>container_shipmentId = ''s9''\<rparr>],
      bale =
        [\<lparr>bale_id = ''b1'', bale_poId = ''po1'', bale_shipmentId = ''s1'',
          bale_containerId = ''ct1'', bale_inspectorId = ''u2'', bale_baleNumber = 1,
          bale_details = ()\<rparr>,
         \<lparr>bale_id = ''b2'', bale_poId = ''po2'', bale_shipmentId = ''s2'',
          bale_containerId = ''ct1'', bale_inspectorId = ''u2'', bale_baleNumber = 2,
          bale_details = ()\<rparr>,
         \<lparr>bale_id = ''b9'', bale_poId = ''po9'', bale_shipmentId = ''s9'',
          bale_containerId = ''ct9'', bale_inspectorId = ''u2'', bale_baleNumber = 1,
          bale_details = ()\<rparr>],
      pOUserAssignment = {(''po1'', ''u3''), (''po2'', ''u4'')} \<rparr>"

text \<open>
  The same store before bale \<open>b2\<close> was created: every bale in it names the ancestors
  of its container.
\<close>

definition consistentDb :: "unit Database" where
  "consistentDb = sampleDb\<lparr>bale := filter (\<lambda>b. bale_id b \<noteq> ''b2'') (bale sampleDb)\<rparr>"

definition authPayload :: "string \<Rightarrow> string \<Rightarrow> string \<Rightarrow> AuthPayload" where
  "authPayload u cid r = \<lparr>userId = u, companyId = cid, role = r\<rparr>"

text \<open>
  The foreign keys of a bale row: its PO, shipment, container and inspector are rows of
  the store.
\<close>

definition parentsExist :: "'d Database \<Rightarrow> 'd Bale \<Rightarrow> bool" where
  "parentsExist db row =
    (purchaseOrder db (bale_poId row) \<noteq> None \<and>
     shipment db (bale_shipmentId row) \<noteq> None \<and>
     container db (bale_containerId row) \<noteq> None \<and>
     user db (bale_inspectorId row) \<noteq> None)"

text \<open>
  Two requests to \<^verbatim>\<open>POST /api/bales\<close> by the inspector \<open>u2\<close> of company \<open>c1\<close>, both for
  container \<open>ct1\<close>, which lies in shipment \<open>s1\<close> of PO \<open>po1\<close>. The first names shipment
  \<open>s2\<close> and PO \<open>po2\<close> of the same company, the second shipment \<open>s9\<close> and PO \<open>po9\<close> of
  company \<open>c2\<close>. \<open>afterCreate\<close> is the store after the first.
\<close>

definition siblingRequest :: "unit CreateBale" where
  "siblingRequest =
    \<lparr>data_poId = ''po2'', data_shipmentId = ''s2'', data_containerId = ''ct1'',
     data_inspectorId = ''u2'', data_baleNumber = 2, data_details = ()\<rparr>"

definition foreignRequest :: "unit CreateBale" where
  "foreignRequest =
    \<lparr>data_poId = ''po9'', data_shipmentId = ''s9'', data_containerId = ''ct1'',
     data_inspectorId = ''u2'', data_baleNumber = 2, data_details = ()\<rparr>"

definition afterCreate :: "unit Database" where
  "afterCreate =
    snd (postBale parentsExist ''b2'' consistentDb
           (Some (authPayload ''u2'' ''c1'' ''INSPECTOR'')) siblingRequest)"

subsection \<open>One behaviour of the externals\<close>

text \<open>
  To evaluate the listing handler: a reading of \<^verbatim>\<open>parseInt(s, 10)\<close>, the database
  keeping table order among equal bale numbers, and \<^verbatim>\<open>take\<close> on whole numbers.

  A string is the list of its UTF-8 bytes. \<^verbatim>\<open>parseInt\<close> skips leading white space,
  which is TAB, LF, VT, FF, CR, the space, U+00A0, U+FEFF, U+2028, U+2029 and the other
  space separators (U+1680, U+2000 to U+200A, U+202F, U+205F, U+3000), reads a sign and
  then the longest run of decimal digits; no digit gives \<^verbatim>\<open>NaN\<close>. The value here is the
  exact integer, which is the source's double for a numeral of up to fifteen digits.
\<close>

definition whiteSpaceBytes :: "string \<Rightarrow> nat" where
  "whiteSpaceBytes s =
    (case s of
       [] \<Rightarrow> 0
     | a # r \<Rightarrow>
         if a \<in> {CHR 0x09, CHR 0x0A, CHR 0x0B, CHR 0x0C, CHR 0x0D, CHR 0x20} then 1
         else
          (case r of
             [] \<Rightarrow> 0
           | b # r' \<Rightarrow>
               if a = CHR 0xC2 \<and> b = CHR 0xA0 then 2
               else
                (case r' of
                   [] \<Rightarrow> 0
                 | c # _ \<Rightarrow>
                     if (a = CHR 0xE1 \<and> b = CHR 0x9A \<and> c = CHR 0x80) \<or>
                        (a = CHR 0xE2 \<and> b = CHR 0x80 \<and>
                         c \<in> {CHR 0x80, CHR 0x81, CHR 0x82, CHR 0x83, CHR 0x84, CHR 0x85,
                              CHR 0x86, CHR 0x87, CHR 0x88, CHR 0x89, CHR 0x8A,
                              CHR 0xA8, CHR 0xA9, CHR 0xAF}) \<or>
                        (a = CHR 0xE2 \<and> b = CHR 0x81 \<and> c = CHR 0x9F) \<or>
                        (a = CHR 0xE3 \<and> b = CHR 0x80 \<and> c = CHR 0x80) \<or>
                        (a = CHR 0xEF \<and> b = CHR 0xBB \<and> c = CHR 0xBF)
                     then 3 else 0)))"

function skipWhiteSpace :: "string \<Rightarrow> string" where
  "skipWhiteSpace s =
    (if whiteSpaceBytes s = 0 then s else skipWhiteSpace (drop (whiteSpaceBytes s) s))"
  by pat_completeness auto
termination
  by (relation "measure length")
     (auto simp add: whiteSpaceBytes_def split: list.splits if_splits)

definition digitValue :: "char \<Rightarrow> int option" where
  "digitValue = map_of
    [(CHR ''0'', 0), (CHR ''1'', 1), (CHR ''2'', 2), (CHR ''3'', 3), (CHR ''4'', 4),
     (CHR ''5'', 5), (CHR ''6'', 6), (CHR ''7'', 7), (CHR ''8'', 8), (CHR ''9'', 9)]"

fun parseDigits :: "int option \<Rightarrow> string \<Rightarrow> int option" where
  "parseDigits acc [] = acc"
| "parseDigits acc (ch # rest) =
    (case digitValue ch of
       None \<Rightarrow> acc
     | Some d \<Rightarrow> parseDigits (Some (10 * (case acc of None \<Rightarrow> 0 | Some a \<Rightarrow> a) + d)) rest)"

definition parseIntDecimal :: "string \<Rightarrow> number" where
  "parseIntDecimal s =
    (case (case skipWhiteSpace s of
             [] \<Rightarrow> None
           | ch # rest \<Rightarrow>
               if ch = CHR ''-'' then map_option uminus (parseDigits None rest)
               else if ch = CHR ''+'' then parseDigits None rest
               else parseDigits None (ch # rest)) of
       None \<Rightarrow> NaN
     | Some n \<Rightarrow> Num (of_int n))"

text \<open>
  \<^verbatim>\<open>take\<close>: a whole number that is not negative keeps that many rows from the start, a
  negative one keeps as many from the end; anything else is refused.
\<close>

definition takeRows :: "int \<Rightarrow> 'a list \<Rightarrow> 'a list" where
  "takeRows n rows =
    (if 0 \<le> n then take (nat n) rows else drop (length rows - nat (- n)) rows)"

definition takeWhole :: "number \<Rightarrow> 'a list \<Rightarrow> thrown + 'a list" where
  "takeWhole limit rows =
    (case limit of
       Num x \<Rightarrow>
         if x = of_int \<lfloor>x\<rfloor> then Inr (takeRows \<lfloor>x\<rfloor> rows)
         else Inl PrismaClientValidationError
     | _ \<Rightarrow> Inl PrismaClientValidationError)"

definition sampleExternals :: "'d Externals" where
  "sampleExternals =
    \<lparr> js_parseInt = parseIntDecimal,
      db_order = (\<lambda>w limit rows. rows),
      prisma_take = takeWhole \<rparr>"

section \<open>Properties of the grade classifier\<close>

text \<open>
  Claim C7. Whenever mold is true, or contamination is true, or wetness is WET, the
  classifier answers REJECT, whatever the moisture reading and the colour are: the
  first rule wins over every later one.
\<close>

theorem calculateBaleGrade_reject_first:
  "mold \<or> contamination \<or> wetness = ''WET'' \<Longrightarrow>
   calculateBaleGrade moisture color wetness mold contamination = REJECT"
  by (simp add: calculateBaleGrade_def)

theorem calculateBaleGrade_reject_first_witness:
  "(False \<or> False \<or> ''WET'' = ''WET'') \<and>
   calculateBaleGrade (Some (Num 12)) ''DARK_GREEN'' ''WET'' False False = REJECT"
  using calculateBaleGrade_reject_first
    [of False False "''WET''" "Some (Num 12)" "''DARK_GREEN''"]
  by simp

text \<open>
  Claim C8. With no mold, no contamination, wetness DRY and colour GREEN, a moisture
  reading above 30 gives grade D and a reading above 25 and at most 30 gives grade C
  (such readings lie outside the band from 10 to 14); in particular 28 gives C and
  31 gives D, the test for more than 30 being made before the test for more than 25.
\<close>

theorem calculateBaleGrade_moisture_order:
  "(js_gt m 30 \<longrightarrow>
      calculateBaleGrade (Some m) ''GREEN'' ''DRY'' False False = D) \<and>
   (js_gt m 25 \<and> js_le m 30 \<longrightarrow>
      calculateBaleGrade (Some m) ''GREEN'' ''DRY'' False False = C) \<and>
   calculateBaleGrade (Some (Num 28)) ''GREEN'' ''DRY'' False False = C \<and>
   calculateBaleGrade (Some (Num 31)) ''GREEN'' ''DRY'' False False = D"
  by (cases m) (simp_all add: calculateBaleGrade_def notnull_and_def)

theorem calculateBaleGrade_moisture_order_witness:
  "js_gt (Num 31) 30 \<and>
   calculateBaleGrade (Some (Num 31)) ''GREEN'' ''DRY'' False False = D \<and>
   js_gt (Num 28) 25 \<and> js_le (Num 28) 30 \<and>
   calculateBaleGrade (Some (Num 28)) ''GREEN'' ''DRY'' False False = C"
  using calculateBaleGrade_moisture_order [of "Num 31"]
    calculateBaleGrade_moisture_order [of "Num 28"]
  by simp

text \<open>
  Claim C10. A measured moisture below 10, with colour DARK_GREEN or GREEN, wetness
  DRY, no mold and no contamination, is graded A: the last dark-green/green-and-dry
  rule does not ask for the reading to be absent, so the bale does not fall through to
  the default B.
\<close>

theorem calculateBaleGrade_low_moisture_A:
  "js_lt m 10 \<Longrightarrow> color = ''DARK_GREEN'' \<or> color = ''GREEN'' \<Longrightarrow>
   calculateBaleGrade (Some m) color ''DRY'' False False = A"
  by (cases m) (auto simp add: calculateBaleGrade_def notnull_and_def)

theorem calculateBaleGrade_low_moisture_A_witness:
  "js_lt (Num 5) 10 \<and> (''GREEN'' = ''DARK_GREEN'' \<or> ''GREEN'' = ''GREEN'') \<and>
   calculateBaleGrade (Some (Num 5)) ''GREEN'' ''DRY'' False False = A"
  using calculateBaleGrade_low_moisture_A [of "Num 5" "''GREEN''"]
  by simp

section \<open>Properties of the access guards\<close>

lemmas guard_defs = accessGuard_def requirePOAccess_def requireShipmentAccess_def
  requireContainerAccess_def requireBaleAccess_def requireAuth_def

lemmas chain_defs = rootCompany_def chainPO_def shipmentPO_def containerPO_def poCompany_def
  bale_findUnique_def

lemmas sample_defs = sampleDb_def authPayload_def

text \<open>
  Claim C1. For every principal and every entity (PO, shipment, container or bale) whose
  root company is not the principal's, the guard fails with 404 and the entity's
  not-found message, whatever the role and whatever the assignment table holds; a
  store in which the entity does not exist gives the very same failure.
\<close>

theorem cross_tenant_not_found:
  assumes "rootCompany db ety entityId = Some cid" and "cid \<noteq> companyId P"
    and "\<not> entityExists db' ety entityId"
  shows "accessGuard db (Some P) ety entityId =
           Inl (HTTPException 404 (notFoundMessage ety)) \<and>
         accessGuard (db\<lparr>pOUserAssignment := X\<rparr>) (Some P) ety entityId =
           Inl (HTTPException 404 (notFoundMessage ety)) \<and>
         accessGuard db' (Some P') ety entityId =
           Inl (HTTPException 404 (notFoundMessage ety))"
  using assms
  by (cases ety)
     (auto simp add: guard_defs chain_defs entityExists_def notFoundMessage_def
           split: option.splits Option.bind_splits)

theorem cross_tenant_not_found_witness:
  "rootCompany sampleDb BALE ''b9'' = Some ''c2'' \<and>
   ''c2'' \<noteq> companyId (authPayload ''u1'' ''c1'' ''SUPERVISOR'') \<and>
   \<not> entityExists (sampleDb\<lparr>bale := []\<rparr>) BALE ''b9'' \<and>
   accessGuard sampleDb (Some (authPayload ''u1'' ''c1'' ''SUPERVISOR'')) BALE ''b9'' =
     Inl (HTTPException 404 ''Bale not found'') \<and>
   accessGuard (sampleDb\<lparr>pOUserAssignment := {(''po9'', ''u1'')}\<rparr>)
       (Some (authPayload ''u1'' ''c1'' ''SUPERVISOR'')) BALE ''b9'' =
     Inl (HTTPException 404 ''Bale not found'') \<and>
   accessGuard (sampleDb\<lparr>bale := []\<rparr>) (Some (authPayload ''u1'' ''c1'' ''SUPERVISOR''))
       BALE ''b9'' =
     Inl (HTTPException 404 ''Bale not found'')"
proof -
  have h1: "rootCompany sampleDb BALE ''b9'' = Some ''c2''"
    by (simp add: chain_defs sample_defs)
  have h2: "''c2'' \<noteq> companyId (authPayload ''u1'' ''c1'' ''SUPERVISOR'')"
    by (simp add: authPayload_def)
  have h3: "\<not> entityExists (sampleDb\<lparr>bale := []\<rparr>) BALE ''b9''"
    by (simp add: entityExists_def bale_findUnique_def)
  from cross_tenant_not_found [OF h1 h2 h3, of "{(''po9'', ''u1'')}"
      "authPayload ''u1'' ''c1'' ''SUPERVISOR''"] h1 h2 h3
  show ?thesis by (simp add: notFoundMessage_def)
qed

text \<open>
  Where the \<^verbatim>\<open>poId\<close> column of a bale is the PO of its chain, and for every PO,
  shipment and container, the guards decide as the second access rule asks: a CUSTOMER
  or SUPPLIER of the entity's company is let through if and only if the assignment
  table has the pair of the PO the entity lies beneath and the principal's user id,
  and is refused with 403 otherwise.
\<close>

lemma assigned_iff_allowed_on_chain:
  assumes "role P = ''CUSTOMER'' \<or> role P = ''SUPPLIER''"
    and "rootCompany db ety entityId = Some (companyId P)"
    and "chainPO db ety entityId = Some p"
    and "ety = BALE \<Longrightarrow> map_option bale_poId (bale_findUnique db entityId) = Some p"
  shows "(accessGuard db (Some P) ety entityId = Inr P) =
           ((p, userId P) \<in> pOUserAssignment db) \<and>
         ((p, userId P) \<notin> pOUserAssignment db \<longrightarrow>
           accessGuard db (Some P) ety entityId =
             Inl (HTTPException 403 (forbiddenMessage ety)))"
  using assms
  by (cases ety)
     (auto simp add: guard_defs chain_defs forbiddenMessage_def
           split: option.splits Option.bind_splits)

lemmas create_defs = postBale_def postBaleBody_def bale_create_def baleRow_def
  requireAuth_def requireContainerAccess_def canCreateBales_def parentsExist_def
  hasStatus_def errorCode_def

lemma afterCreate_eq:
  "afterCreate =
     consistentDb\<lparr>bale := bale consistentDb @
       [\<lparr>bale_id = ''b2'', bale_poId = ''po2'', bale_shipmentId = ''s2'',
         bale_containerId = ''ct1'', bale_inspectorId = ''u2'', bale_baleNumber = 2,
         bale_details = ()\<rparr>]\<rparr>"
  by (simp add: afterCreate_def siblingRequest_def consistentDb_def create_defs
        sample_defs)

text \<open>
  Claim C2, where the code departs from it. The claim: for a CUSTOMER or SUPPLIER and
  an entity of the principal's own company, the guard lets the principal through if
  and only if an assignment exists for the entity's PO and the principal, and refuses
  with 403 otherwise. In the store left by the request that names \<open>po2\<close> for a bale
  created in a container of \<open>po1\<close>, bale \<open>b2\<close> lies beneath \<open>po1\<close> in company \<open>c1\<close>.
  The customer \<open>u3\<close> of \<open>c1\<close> is assigned to \<open>po1\<close> and is refused with 403; the supplier
  \<open>u4\<close> of \<open>c1\<close> is not assigned to \<open>po1\<close> and is let through.
\<close>

theorem bale_guard_after_mismatched_create:
  "fst (postBale parentsExist ''b2'' consistentDb
          (Some (authPayload ''u2'' ''c1'' ''INSPECTOR'')) siblingRequest) =
     Inr (Json 201
       \<lparr>bale_id = ''b2'', bale_poId = ''po2'', bale_shipmentId = ''s2'',
        bale_containerId = ''ct1'', bale_inspectorId = ''u2'', bale_baleNumber = 2,
        bale_details = ()\<rparr>) \<and>
   chainPO afterCreate BALE ''b2'' = Some ''po1'' \<and>
   rootCompany afterCreate BALE ''b2'' = Some ''c1'' \<and>
   (''po1'', ''u3'') \<in> pOUserAssignment afterCreate \<and>
   accessGuard afterCreate (Some (authPayload ''u3'' ''c1'' ''CUSTOMER'')) BALE ''b2'' =
     Inl (HTTPException 403 ''You do not have access to this bale'') \<and>
   (''po1'', ''u4'') \<notin> pOUserAssignment afterCreate \<and>
   accessGuard afterCreate (Some (authPayload ''u4'' ''c1'' ''SUPPLIER'')) BALE ''b2'' =
     Inr (authPayload ''u4'' ''c1'' ''SUPPLIER'')"
proof -
  have created: "fst (postBale parentsExist ''b2'' consistentDb
          (Some (authPayload ''u2'' ''c1'' ''INSPECTOR'')) siblingRequest) =
     Inr (Json 201
       \<lparr>bale_id = ''b2'', bale_poId = ''po2'', bale_shipmentId = ''s2'',
        bale_containerId = ''ct1'', bale_inspectorId = ''u2'', bale_baleNumber = 2,
        bale_details = ()\<rparr>)"
    by (simp add: siblingRequest_def consistentDb_def create_defs sample_defs)
  have chain: "chainPO afterCreate BALE ''b2'' = Some ''po1''"
    "rootCompany afterCreate BALE ''b2'' = Some ''c1''"
    by (simp_all add: afterCreate_eq consistentDb_def chain_defs sample_defs)
  have assigned: "pOUserAssignment afterCreate = {(''po1'', ''u3''), (''po2'', ''u4'')}"
    by (simp add: afterCreate_eq consistentDb_def sampleDb_def)
  have customer:
    "accessGuard afterCreate (Some (authPayload ''u3'' ''c1'' ''CUSTOMER'')) BALE ''b2'' =
       Inl (HTTPException 403 ''You do not have access to this bale'')"
    by (simp add: afterCreate_eq consistentDb_def guard_defs bale_findUnique_def
          sample_defs)
  have supplier:
    "accessGuard afterCreate (Some (authPayload ''u4'' ''c1'' ''SUPPLIER'')) BALE ''b2'' =
       Inr (authPayload ''u4'' ''c1'' ''SUPPLIER'')"
    by (simp add: afterCreate_eq consistentDb_def guard_defs bale_findUnique_def
          sample_defs)
  from created chain assigned customer supplier show ?thesis
    by simp
qed

text \<open>
  Claim C3. For a SUPERVISOR or INSPECTOR and an entity of the principal's own company,
  the guard lets the principal through, and does so under every assignment table.
\<close>

theorem staff_allowed_in_company:
  assumes "role P = ''SUPERVISOR'' \<or> role P = ''INSPECTOR''"
    and "rootCompany db ety entityId = Some (companyId P)"
  shows "accessGuard db (Some P) ety entityId = Inr P \<and>
         accessGuard (db\<lparr>pOUserAssignment := X\<rparr>) (Some P) ety entityId = Inr P"
  using assms
  by (cases ety)
     (auto simp add: guard_defs chain_defs
           split: option.splits Option.bind_splits)

theorem staff_allowed_in_company_witness:
  "(role (authPayload ''u2'' ''c1'' ''INSPECTOR'') = ''SUPERVISOR'' \<or>
    role (authPayload ''u2'' ''c1'' ''INSPECTOR'') = ''INSPECTOR'') \<and>
   rootCompany sampleDb SHIPMENT ''s2'' = Some (companyId (authPayload ''u2'' ''c1'' ''INSPECTOR'')) \<and>
   accessGuard sampleDb (Some (authPayload ''u2'' ''c1'' ''INSPECTOR'')) SHIPMENT ''s2'' =
     Inr (authPayload ''u2'' ''c1'' ''INSPECTOR'') \<and>
   accessGuard (sampleDb\<lparr>pOUserAssignment := {}\<rparr>)
     (Some (authPayload ''u2'' ''c1'' ''INSPECTOR'')) SHIPMENT ''s2'' =
     Inr (authPayload ''u2'' ''c1'' ''INSPECTOR'')"
proof -
  let ?P = "authPayload ''u2'' ''c1'' ''INSPECTOR''"
  have r: "role ?P = ''SUPERVISOR'' \<or> role ?P = ''INSPECTOR''"
    by (simp add: authPayload_def)
  have c: "rootCompany sampleDb SHIPMENT ''s2'' = Some (companyId ?P)"
    by (simp add: chain_defs sample_defs)
  from staff_allowed_in_company [OF r c, of "{}"] r c
  show ?thesis by simp
qed

text \<open>
  Claim C9. The bale guard takes the company from the live chain of the bale (its
  container, that container's shipment, that shipment's PO) and, for a CUSTOMER or
  SUPPLIER, looks the assignment up under the \<^verbatim>\<open>poId\<close> column of the bale row. So for
  a bale whose column differs from the PO of its chain, being let through or refused
  follows the column: an assignment to the column's PO lets the principal through
  without one to the chain's PO, and an assignment to the chain's PO alone does not.
\<close>

theorem bale_guard_decides_by_stored_poId:
  assumes "bale_findUnique db baleId = Some b"
    and "rootCompany db BALE baleId = Some cid"
    and "chainPO db BALE baleId = Some q"
  shows "requireBaleAccess db (Some P) baleId =
           (if cid \<noteq> companyId P then Inl (HTTPException 404 ''Bale not found'')
            else if (role P = ''CUSTOMER'' \<or> role P = ''SUPPLIER'') \<and>
                    (bale_poId b, userId P) \<notin> pOUserAssignment db
            then Inl (HTTPException 403 ''You do not have access to this bale'')
            else Inr (P, bale_containerId b, bale_shipmentId b, bale_poId b)) \<and>
         (bale_poId b \<noteq> q \<and> cid = companyId P \<and>
          (role P = ''CUSTOMER'' \<or> role P = ''SUPPLIER'') \<longrightarrow>
            ((bale_poId b, userId P) \<in> pOUserAssignment db \<and>
             (q, userId P) \<notin> pOUserAssignment db \<longrightarrow>
               requireBaleAccess db (Some P) baleId =
                 Inr (P, bale_containerId b, bale_shipmentId b, bale_poId b)) \<and>
            ((q, userId P) \<in> pOUserAssignment db \<and>
             (bale_poId b, userId P) \<notin> pOUserAssignment db \<longrightarrow>
               requireBaleAccess db (Some P) baleId =
                 Inl (HTTPException 403 ''You do not have access to this bale'')))"
  using assms
  by (auto simp add: requireBaleAccess_def requireAuth_def chain_defs
        split: option.splits Option.bind_splits)

theorem bale_guard_decides_by_stored_poId_witness:
  "bale_findUnique sampleDb ''b2'' =
     Some \<lparr>bale_id = ''b2'', bale_poId = ''po2'', bale_shipmentId = ''s2'',
           bale_containerId = ''ct1'', bale_inspectorId = ''u2'', bale_baleNumber = 2,
           bale_details = ()\<rparr> \<and>
   rootCompany sampleDb BALE ''b2'' = Some ''c1'' \<and>
   chainPO sampleDb BALE ''b2'' = Some ''po1'' \<and>
   (''po1'', ''u3'') \<in> pOUserAssignment sampleDb \<and>
   (''po2'', ''u3'') \<notin> pOUserAssignment sampleDb \<and>
   requireBaleAccess sampleDb (Some (authPayload ''u3'' ''c1'' ''CUSTOMER'')) ''b2'' =
     Inl (HTTPException 403 ''You do not have access to this bale'') \<and>
   (''po2'', ''u4'') \<in> pOUserAssignment sampleDb \<and>
   (''po1'', ''u4'') \<notin> pOUserAssignment sampleDb \<and>
   requireBaleAccess sampleDb (Some (authPayload ''u4'' ''c1'' ''SUPPLIER'')) ''b2'' =
     Inr (authPayload ''u4'' ''c1'' ''SUPPLIER'', ''ct1'', ''s2'', ''po2'')"
proof -
  let ?b = "\<lparr>bale_id = ''b2'', bale_poId = ''po2'', bale_shipmentId = ''s2'',
           bale_containerId = ''ct1'', bale_inspectorId = ''u2'', bale_baleNumber = 2,
           bale_details = ()\<rparr>"
  have f: "bale_findUnique sampleDb ''b2'' = Some ?b"
    by (simp add: bale_findUnique_def sampleDb_def)
  have c: "rootCompany sampleDb BALE ''b2'' = Some ''c1''"
    by (simp add: chain_defs sampleDb_def)
  have q: "chainPO sampleDb BALE ''b2'' = Some ''po1''"
    by (simp add: chain_defs sampleDb_def)
  have a: "pOUserAssignment sampleDb = {(''po1'', ''u3''), (''po2'', ''u4'')}"
    by (simp add: sampleDb_def)
  from bale_guard_decides_by_stored_poId [OF f c q, of "authPayload ''u3'' ''c1'' ''CUSTOMER''"]
    bale_guard_decides_by_stored_poId [OF f c q, of "authPayload ''u4'' ''c1'' ''SUPPLIER''"]
    f c q a
  show ?thesis by (simp add: authPayload_def)
qed

text \<open>
  Claim C6, as the code has it. The claim says that a principal whose role is none of
  SUPERVISOR, INSPECTOR, CUSTOMER, SUPPLIER is never granted view access. The guards
  test for CUSTOMER and SUPPLIER only and let every other role string through: in the
  sample store a principal with the role ADMIN is let through to a PO of its company.
\<close>

theorem unknown_role_view_access_counterexample:
  "role (authPayload ''u7'' ''c1'' ''ADMIN'') \<notin>
     {''SUPERVISOR'', ''INSPECTOR'', ''CUSTOMER'', ''SUPPLIER''} \<and>
   rootCompany sampleDb PO ''po1'' = Some (companyId (authPayload ''u7'' ''c1'' ''ADMIN'')) \<and>
   accessGuard sampleDb (Some (authPayload ''u7'' ''c1'' ''ADMIN'')) PO ''po1'' =
     Inr (authPayload ''u7'' ''c1'' ''ADMIN'')"
  by (simp add: guard_defs chain_defs sample_defs)

text \<open>
  Claim C6, amended. For a principal whose role is none of SUPERVISOR, INSPECTOR,
  CUSTOMER, SUPPLIER: the role check \<^verbatim>\<open>requireRole\<close> refuses it with 403 for every list
  of recognised roles, and it can neither create bales nor counts as supervisor; but
  the view guards let it through to every entity of its own company, as they do a
  SUPERVISOR or INSPECTOR.
\<close>

theorem unknown_role_capabilities:
  assumes "role P \<notin> {''SUPERVISOR'', ''INSPECTOR'', ''CUSTOMER'', ''SUPPLIER''}"
  shows "(rootCompany db ety entityId = Some (companyId P) \<longrightarrow>
            accessGuard db (Some P) ety entityId = Inr P) \<and>
         (set allowedRoles \<subseteq> {''SUPERVISOR'', ''INSPECTOR'', ''CUSTOMER'', ''SUPPLIER''} \<longrightarrow>
            requireRole (Some P) allowedRoles =
              Inl (HTTPException 403
                (''Access denied. Required roles: '' @ join '', '' allowedRoles))) \<and>
         \<not> canCreateBales P \<and> \<not> isSupervisor P"
proof -
  have view: "rootCompany db ety entityId = Some (companyId P) \<Longrightarrow>
      accessGuard db (Some P) ety entityId = Inr P"
    using assms
    by (cases ety)
       (auto simp add: guard_defs chain_defs split: option.splits Option.bind_splits)
  have refused: "set allowedRoles \<subseteq> {''SUPERVISOR'', ''INSPECTOR'', ''CUSTOMER'', ''SUPPLIER''} \<Longrightarrow>
      requireRole (Some P) allowedRoles =
        Inl (HTTPException 403
          (''Access denied. Required roles: '' @ join '', '' allowedRoles))"
    using assms by (auto simp add: requireRole_def requireAuth_def)
  have caps: "\<not> canCreateBales P \<and> \<not> isSupervisor P"
    using assms by (simp add: canCreateBales_def isSupervisor_def)
  from view refused caps show ?thesis by blast
qed

theorem unknown_role_capabilities_witness:
  "role (authPayload ''u7'' ''c1'' ''ADMIN'') \<notin>
     {''SUPERVISOR'', ''INSPECTOR'', ''CUSTOMER'', ''SUPPLIER''} \<and>
   rootCompany sampleDb BALE ''b1'' = Some (companyId (authPayload ''u7'' ''c1'' ''ADMIN'')) \<and>
   accessGuard sampleDb (Some (authPayload ''u7'' ''c1'' ''ADMIN'')) BALE ''b1'' =
     Inr (authPayload ''u7'' ''c1'' ''ADMIN'') \<and>
   set [''SUPERVISOR''] \<subseteq> {''SUPERVISOR'', ''INSPECTOR'', ''CUSTOMER'', ''SUPPLIER''} \<and>
   requireRole (Some (authPayload ''u7'' ''c1'' ''ADMIN'')) [''SUPERVISOR''] =
     Inl (HTTPException 403 ''Access denied. Required roles: SUPERVISOR'') \<and>
   \<not> canCreateBales (authPayload ''u7'' ''c1'' ''ADMIN'')"
proof -
  let ?P = "authPayload ''u7'' ''c1'' ''ADMIN''"
  have r: "role ?P \<notin> {''SUPERVISOR'', ''INSPECTOR'', ''CUSTOMER'', ''SUPPLIER''}"
    by (simp add: authPayload_def)
  have c: "rootCompany sampleDb BALE ''b1'' = Some (companyId ?P)"
    by (simp add: chain_defs sample_defs)
  have s: "set [''SUPERVISOR''] \<subseteq> {''SUPERVISOR'', ''INSPECTOR'', ''CUSTOMER'', ''SUPPLIER''}"
    by simp
  from unknown_role_capabilities [OF r, of sampleDb BALE "''b1''" "[''SUPERVISOR'']"] r c s
  show ?thesis by simp
qed

section \<open>Properties of the bale routes\<close>

text \<open>
  When \<^verbatim>\<open>POST /api/bales\<close> answers 201: exactly when the caller may create bales, the
  container named lies in the caller's company, the bale number is free in that
  container and the store takes the row. The \<^verbatim>\<open>poId\<close> and \<^verbatim>\<open>shipmentId\<close> of the body
  are tested nowhere, and the row created is the body under its new id.
\<close>

lemma postBale_201_iff:
  "(postBale accepts newId db c data = (Inr (Json 201 row), db')) =
   ((\<exists>auth. c = Some auth \<and> canCreateBales auth \<and>
       rootCompany db CONTAINER (data_containerId data) = Some (companyId auth)) \<and>
    \<not> list_ex (\<lambda>b. bale_containerId b = data_containerId data \<and>
                     bale_baleNumber b = data_baleNumber data) (bale db) \<and>
    accepts db (baleRow newId data) \<and>
    row = baleRow newId data \<and>
    db' = db\<lparr>bale := bale db @ [baleRow newId data]\<rparr>)"
proof (cases c)
  case None
  then show ?thesis
    by (simp add: postBale_def postBaleBody_def requireAuth_def hasStatus_def)
next
  case (Some auth)
  show ?thesis
  proof (cases "canCreateBales auth")
    case False
    with Some show ?thesis
      by (simp add: postBale_def postBaleBody_def requireAuth_def)
  next
    case True
    then have staff: "role auth \<noteq> ''CUSTOMER''" "role auth \<noteq> ''SUPPLIER''"
      by (auto simp add: canCreateBales_def)
    have guard: "isl (requireContainerAccess db (Some auth) (data_containerId data)) =
        (rootCompany db CONTAINER (data_containerId data) \<noteq> Some (companyId auth))"
      using staff
      by (auto simp add: requireContainerAccess_def requireAuth_def chain_defs
            split: option.splits Option.bind_splits)
    show ?thesis
    proof (cases "requireContainerAccess db (Some auth) (data_containerId data)")
      case (Inl e)
      with guard have "rootCompany db CONTAINER (data_containerId data) \<noteq>
          Some (companyId auth)"
        by simp
      with Some True Inl show ?thesis
        by (auto simp add: postBale_def postBaleBody_def requireAuth_def
              split: if_splits)
    next
      case (Inr x)
      with guard have "rootCompany db CONTAINER (data_containerId data) =
          Some (companyId auth)"
        by simp
      with Some True Inr show ?thesis
        by (auto simp add: postBale_def postBaleBody_def requireAuth_def
              bale_create_def hasStatus_def errorCode_def split: if_splits)
    qed
  qed
qed

text \<open>
  Claim C4, where the code departs from it. The claim: the \<^verbatim>\<open>poId\<close> and \<^verbatim>\<open>shipmentId\<close>
  stored on a created bale are those of the chain of its container, never a value of
  the client's that differs. The inspector \<open>u2\<close> of company \<open>c1\<close> asks for a bale in
  container \<open>ct1\<close>, whose chain is shipment \<open>s1\<close> and PO \<open>po1\<close>, and names shipment \<open>s9\<close>
  and PO \<open>po9\<close> of company \<open>c2\<close>. The answer is 201 and the row stored names \<open>s9\<close> and
  \<open>po9\<close>.
\<close>

theorem postBale_stores_mismatched_ids:
  "postBale parentsExist ''b3'' consistentDb (Some (authPayload ''u2'' ''c1'' ''INSPECTOR''))
     foreignRequest =
   (Inr (Json 201
      \<lparr>bale_id = ''b3'', bale_poId = ''po9'', bale_shipmentId = ''s9'',
       bale_containerId = ''ct1'', bale_inspectorId = ''u2'', bale_baleNumber = 2,
       bale_details = ()\<rparr>),
    consistentDb\<lparr>bale := bale consistentDb @
      [\<lparr>bale_id = ''b3'', bale_poId = ''po9'', bale_shipmentId = ''s9'',
        bale_containerId = ''ct1'', bale_inspectorId = ''u2'', bale_baleNumber = 2,
        bale_details = ()\<rparr>]\<rparr>) \<and>
   containerPO consistentDb ''ct1'' = Some ''po1'' \<and>
   containerShipment consistentDb ''ct1'' = Some ''s1'' \<and>
   poCompany consistentDb ''po9'' = Some ''c2''"
proof -
  have row: "baleRow ''b3'' foreignRequest =
      \<lparr>bale_id = ''b3'', bale_poId = ''po9'', bale_shipmentId = ''s9'',
       bale_containerId = ''ct1'', bale_inspectorId = ''u2'', bale_baleNumber = 2,
       bale_details = ()\<rparr>"
    by (simp add: baleRow_def foreignRequest_def)
  have caller: "canCreateBales (authPayload ''u2'' ''c1'' ''INSPECTOR'')"
    by (simp add: canCreateBales_def authPayload_def)
  have company: "rootCompany consistentDb CONTAINER (data_containerId foreignRequest) =
      Some (companyId (authPayload ''u2'' ''c1'' ''INSPECTOR''))"
    by (simp add: foreignRequest_def consistentDb_def chain_defs sample_defs)
  have free: "\<not> list_ex (\<lambda>b. bale_containerId b = data_containerId foreignRequest \<and>
      bale_baleNumber b = data_baleNumber foreignRequest) (bale consistentDb)"
    by (simp add: foreignRequest_def consistentDb_def sampleDb_def)
  have taken: "parentsExist consistentDb (baleRow ''b3'' foreignRequest)"
    by (simp add: row parentsExist_def consistentDb_def sampleDb_def)
  have chain: "containerPO consistentDb ''ct1'' = Some ''po1''"
    "containerShipment consistentDb ''ct1'' = Some ''s1''"
    "poCompany consistentDb ''po9'' = Some ''c2''"
    by (simp_all add: containerShipment_def consistentDb_def chain_defs sampleDb_def)
  from caller company free taken
  have "postBale parentsExist ''b3'' consistentDb
      (Some (authPayload ''u2'' ''c1'' ''INSPECTOR'')) foreignRequest =
    (Inr (Json 201 (baleRow ''b3'' foreignRequest)),
     consistentDb\<lparr>bale := bale consistentDb @ [baleRow ''b3'' foreignRequest]\<rparr>)"
    by (simp add: postBale_201_iff)
  with row chain show ?thesis
    by simp
qed

lemmas getBales_defs = getBales_def getBalesBody_def requireAuth_def bale_findMany_def

lemma baleMatches_unscoped:
  "baleMatches db \<lparr>where_containerId = None, where_shipmentId = s, where_poId = p,
      where_inspectorId = i, where_companyId = None\<rparr> =
   (\<lambda>b. columnIs s (bale_shipmentId b) \<and> columnIs p (bale_poId b) \<and>
        columnIs i (bale_inspectorId b))"
  by (simp add: baleMatches_def columnIs_def fun_eq_iff)

lemma baleMatches_scoped:
  "baleMatches db \<lparr>where_containerId = None, where_shipmentId = None, where_poId = None,
      where_inspectorId = i, where_companyId = Some cid\<rparr> =
   (\<lambda>b. columnIs i (bale_inspectorId b) \<and> baleCompany db b = Some cid)"
  by (simp add: baleMatches_def columnIs_def fun_eq_iff)

lemmas eval_defs = truthy_def limitText_def fetchCatch_def hasStatus_def
  sampleExternals_def parseIntDecimal_def whiteSpaceBytes_def digitValue_def
  takeWhole_def takeRows_def columnIs_def baleCompany_def

text \<open>
  Claim C5, as the code has it. The claim says that a query with an inspector filter
  and no container filter is not scoped to the company and returns every bale that
  matches. With the inspector filter alone the handler adds the company of the
  principal to the query: all three bales of the sample store have inspector \<open>u2\<close>,
  and two principals that differ in the company only get different lists.
\<close>

theorem getBales_inspector_filter_counterexample:
  "getBales sampleExternals sampleDb (Some (authPayload ''u1'' ''c1'' ''SUPERVISOR''))
       None None None (Some ''u2'') None =
     Inr (Json 200
       [\<lparr>bale_id = ''b1'', bale_poId = ''po1'', bale_shipmentId = ''s1'',
         bale_containerId = ''ct1'', bale_inspectorId = ''u2'', bale_baleNumber = 1,
         bale_details = ()\<rparr>,
        \<lparr>bale_id = ''b2'', bale_poId = ''po2'', bale_shipmentId = ''s2'',
         bale_containerId = ''ct1'', bale_inspectorId = ''u2'', bale_baleNumber = 2,
         bale_details = ()\<rparr>]) \<and>
   getBales sampleExternals sampleDb (Some (authPayload ''u1'' ''c2'' ''SUPERVISOR''))
       None None None (Some ''u2'') None =
     Inr (Json 200
       [\<lparr>bale_id = ''b9'', bale_poId = ''po9'', bale_shipmentId = ''s9'',
         bale_containerId = ''ct9'', bale_inspectorId = ''u2'', bale_baleNumber = 1,
         bale_details = ()\<rparr>])"
  by (simp add: getBales_defs baleMatches_def eval_defs chain_defs sample_defs)

text \<open>
  Claim C5, amended. A query \<^verbatim>\<open>GET /api/bales\<close> with no (non-empty) \<^verbatim>\<open>containerId\<close> and
  a non-empty \<^verbatim>\<open>shipmentId\<close> or \<^verbatim>\<open>poId\<close> is answered without company scoping and
  without an assignment check: the answer is what the store gives for the query whose
  conditions are the filters given and nothing else (the rows that match them, sorted
  by bale number, and what \<^verbatim>\<open>take\<close> makes of them for the limit, which is read from
  \<^verbatim>\<open>"100"\<close> when none is given), and it is the same answer for every principal. When
  none of \<^verbatim>\<open>containerId\<close>, \<^verbatim>\<open>shipmentId\<close> and \<^verbatim>\<open>poId\<close> is given, with or without an
  inspector filter, the query has the condition that the chain of the bale ends in
  the principal's company. This holds whatever \<^verbatim>\<open>parseInt\<close> and the store's ordering
  and \<^verbatim>\<open>take\<close> do.
\<close>

theorem getBales_scoping:
  "(truthy containerId = None \<and> (truthy shipmentId \<noteq> None \<or> truthy poId \<noteq> None) \<longrightarrow>
      getBales ext db (Some P) containerId shipmentId poId inspectorId limitQuery =
        fetchCatch (map_sum id (Json 200)
          (prisma_take ext (js_parseInt ext (limitText limitQuery))
            (sort_key bale_baleNumber
              (db_order ext
                \<lparr>where_containerId = None, where_shipmentId = truthy shipmentId,
                 where_poId = truthy poId, where_inspectorId = truthy inspectorId,
                 where_companyId = None\<rparr>
                (js_parseInt ext (limitText limitQuery))
                (filter (\<lambda>b. columnIs (truthy shipmentId) (bale_shipmentId b) \<and>
                             columnIs (truthy poId) (bale_poId b) \<and>
                             columnIs (truthy inspectorId) (bale_inspectorId b))
                   (bale db)))))) \<and>
      getBales ext db (Some P') containerId shipmentId poId inspectorId limitQuery =
        getBales ext db (Some P) containerId shipmentId poId inspectorId limitQuery) \<and>
   (truthy containerId = None \<and> truthy shipmentId = None \<and> truthy poId = None \<longrightarrow>
      getBales ext db (Some P) containerId shipmentId poId inspectorId limitQuery =
        fetchCatch (map_sum id (Json 200)
          (prisma_take ext (js_parseInt ext (limitText limitQuery))
            (sort_key bale_baleNumber
              (db_order ext
                \<lparr>where_containerId = None, where_shipmentId = None,
                 where_poId = None, where_inspectorId = truthy inspectorId,
                 where_companyId = Some (companyId P)\<rparr>
                (js_parseInt ext (limitText limitQuery))
                (filter (\<lambda>b. columnIs (truthy inspectorId) (bale_inspectorId b) \<and>
                             baleCompany db b = Some (companyId P))
                   (bale db)))))))"
proof -
  let ?limit = "js_parseInt ext (limitText limitQuery)"
  let ?answer = "\<lambda>w rows. fetchCatch (map_sum id (Json 200)
      (prisma_take ext ?limit (sort_key bale_baleNumber (db_order ext w ?limit rows))))"
  have answer: "(case bale_findMany ext db w ?limit of
        Inl e \<Rightarrow> Inl e | Inr bales \<Rightarrow> Inr (Json 200 bales)) =
      map_sum id (Json 200) (bale_findMany ext db w ?limit)" for w
    by (cases "bale_findMany ext db w ?limit") simp_all
  have unscoped:
    "getBales ext db (Some Q) containerId shipmentId poId inspectorId limitQuery =
       ?answer \<lparr>where_containerId = None, where_shipmentId = truthy shipmentId,
                where_poId = truthy poId, where_inspectorId = truthy inspectorId,
                where_companyId = None\<rparr>
         (filter (\<lambda>b. columnIs (truthy shipmentId) (bale_shipmentId b) \<and>
                      columnIs (truthy poId) (bale_poId b) \<and>
                      columnIs (truthy inspectorId) (bale_inspectorId b)) (bale db))"
    if "truthy containerId = None" and "truthy shipmentId \<noteq> None \<or> truthy poId \<noteq> None"
    for Q
  proof -
    from that(2) have given: "(truthy shipmentId = None \<and> truthy poId = None) = False"
      by auto
    from that(1) show ?thesis
      by (simp add: getBales_def getBalesBody_def requireAuth_def answer given)
         (simp add: bale_findMany_def baleMatches_unscoped)
  qed
  have scoped:
    "getBales ext db (Some P) containerId shipmentId poId inspectorId limitQuery =
       ?answer \<lparr>where_containerId = None, where_shipmentId = None,
                where_poId = None, where_inspectorId = truthy inspectorId,
                where_companyId = Some (companyId P)\<rparr>
         (filter (\<lambda>b. columnIs (truthy inspectorId) (bale_inspectorId b) \<and>
                      baleCompany db b = Some (companyId P)) (bale db))"
    if "truthy containerId = None" and "truthy shipmentId = None" and "truthy poId = None"
    using that
    by (simp add: getBales_def getBalesBody_def requireAuth_def answer)
       (simp add: bale_findMany_def baleMatches_scoped)
  from unscoped [of P] unscoped [of P'] scoped show ?thesis
    by simp
qed

theorem getBales_scoping_witness:
  "truthy None = None \<and> truthy (Some ''po1'') \<noteq> None \<and>
   getBales sampleExternals sampleDb (Some (authPayload ''u8'' ''c2'' ''CUSTOMER''))
       None None (Some ''po1'') None None =
     Inr (Json 200
       [\<lparr>bale_id = ''b1'', bale_poId = ''po1'', bale_shipmentId = ''s1'',
         bale_containerId = ''ct1'', bale_inspectorId = ''u2'', bale_baleNumber = 1,
         bale_details = ()\<rparr>]) \<and>
   getBales sampleExternals sampleDb (Some (authPayload ''u1'' ''c1'' ''SUPERVISOR''))
       None None (Some ''po1'') None None =
     getBales sampleExternals sampleDb (Some (authPayload ''u8'' ''c2'' ''CUSTOMER''))
       None None (Some ''po1'') None None \<and>
   getBales sampleExternals sampleDb (Some (authPayload ''u8'' ''c2'' ''CUSTOMER''))
       None None None None None =
     Inr (Json 200
       [\<lparr>bale_id = ''b9'', bale_poId = ''po9'', bale_shipmentId = ''s9'',
         bale_containerId = ''ct9'', bale_inspectorId = ''u2'', bale_baleNumber = 1,
         bale_details = ()\<rparr>])"
  using getBales_scoping [of None None "Some ''po1''" sampleExternals sampleDb
      "authPayload ''u8'' ''c2'' ''CUSTOMER''" None None
      "authPayload ''u1'' ''c1'' ''SUPERVISOR''"]
    getBales_scoping [of None None None sampleExternals sampleDb
      "authPayload ''u8'' ''c2'' ''CUSTOMER''" None None
      "authPayload ''u1'' ''c1'' ''SUPERVISOR''"]
  by (simp add: eval_defs chain_defs sample_defs)

end
